theory Spec2Isabelle
  imports Complex_Main "HOL-Library.Sublist" "HOL-Library.Multiset"
begin

section \<open>JavaScript values used by OpenAIEmbeddings.ts\<close>

text \<open>
  A property of a JavaScript object is absent, present with the value \<open>undefined\<close>, or
  present with a value. Reading an absent property gives \<open>undefined\<close>, so the two differ
  only for \<open>Object.assign\<close>, which copies every own property of its source, also one
  whose value is \<open>undefined\<close>.
\<close>

datatype 'a property = Absent | Undefined | Val 'a

text \<open>Truthiness of an optional string: \<open>undefined\<close> and the empty string are falsy.\<close>

fun truthy :: "string property \<Rightarrow> bool" where
  "truthy (Val s) = (s \<noteq> [])"
| "truthy _ = False"

text \<open>\<open>Object.assign({k: d}, options)\<close> seen at the key \<open>k\<close>.\<close>

fun assign_default :: "'a \<Rightarrow> 'a property \<Rightarrow> 'a property" where
  "assign_default d Absent = Val d"
| "assign_default d p = p"

text \<open>\<open>p ?? d\<close>: only \<open>undefined\<close> selects the default, the empty string does not.\<close>

fun nullish_or :: "string property \<Rightarrow> string \<Rightarrow> string" where
  "nullish_or (Val s) d = s"
| "nullish_or _ d = d"

text \<open>A string property inside a template literal: \<open>undefined\<close> prints as its name.\<close>

fun template :: "string property \<Rightarrow> string" where
  "template (Val s) = s"
| "template _ = ''undefined''"

fun isArray :: "'a list property \<Rightarrow> bool" where
  "isArray (Val xs) = True"
| "isArray _ = False"

fun elements :: "'a list property \<Rightarrow> 'a list" where
  "elements (Val xs) = xs"
| "elements _ = []"

subsection \<open>Strings\<close>

text \<open>
  Strings are lists of \<open>char\<close>, each read as the code unit U+0000 to U+00FF of that
  number. In that range the white space and line terminators that \<open>trim\<close> removes are
  TAB, LF, VT, FF, CR, SPACE and NBSP, and \<open>toLowerCase\<close> moves A to Z and the
  capital letters U+00C0 to U+00DE (without the multiplication sign U+00D7) up by 32.
\<close>

definition isWhiteSpace :: "char \<Rightarrow> bool" where
  "isWhiteSpace c = ((of_char c :: nat) \<in> {9, 10, 11, 12, 13, 32, 160})"

definition trim :: "string \<Rightarrow> string" where
  "trim s = rev (dropWhile isWhiteSpace (rev (dropWhile isWhiteSpace s)))"

definition toLowerChar :: "char \<Rightarrow> char" where
  "toLowerChar c =
     (let n = (of_char c :: nat)
      in if (65 \<le> n \<and> n \<le> 90) \<or> (192 \<le> n \<and> n \<le> 222 \<and> n \<noteq> 215)
         then char_of (n + 32) else c)"

definition toLowerCase :: "string \<Rightarrow> string" where
  "toLowerCase s = map toLowerChar s"

definition startsWith :: "string \<Rightarrow> string \<Rightarrow> bool" where
  "startsWith s t = prefix t s"

definition endsWith :: "string \<Rightarrow> string \<Rightarrow> bool" where
  "endsWith s t = suffix t s"

definition substring :: "string \<Rightarrow> nat \<Rightarrow> nat \<Rightarrow> string" where
  "substring s i j = take (max i j - min i j) (drop (min i j) s)"

text \<open>
  A status code inside a template literal is printed in decimal: the digits are produced
  from the last to the first, and a negative number gets a minus sign.
\<close>

definition digit_char :: "nat \<Rightarrow> char" where
  "digit_char d = ''0123456789'' ! d"

fun print_digits :: "nat \<Rightarrow> string \<Rightarrow> string" where
  "print_digits n acc =
     (if n < 10 then digit_char n # acc
      else print_digits (n div 10) (digit_char (n mod 10) # acc))"

definition toString :: "int \<Rightarrow> string" where
  "toString i = (if i < 0 then CHR ''-'' # print_digits (nat (- i)) [] else print_digits (nat i) [])"

section \<open>Options and client\<close>

text \<open>
  A headers object is a finite map from header names to values. The caller's headers
  object is shared with the client by reference, so headers objects live in a store and
  a request configuration holds the address of its headers object.
\<close>

type_synonym headers = "string \<rightharpoonup> string"
type_synonym addr = nat
type_synonym store = "addr \<Rightarrow> headers"

text \<open>
  \<open>AxiosRequestConfig\<close>: the \<open>headers\<close> reference, and \<open>timeout\<close> standing for the
  fields that the client copies and passes on without reading them.
\<close>

record request_config =
  headers :: "addr option"
  timeout :: "int option"

text \<open>
  The constructor takes the union of the three option interfaces and reads it through
  casts, so one record holds every field of the three, each optional at run time.
\<close>

record options =
  logRequests :: "bool property"
  retryPolicy :: "int list property"
  requestConfig :: "request_config property"
  ossModel :: "string property"
  ossEndpoint :: "string property"
  apiKey :: "string property"
  model :: "string property"
  organization :: "string property"
  endpoint :: "string property"
  azureApiKey :: "string property"
  azureEndpoint :: "string property"
  azureDeployment :: "string property"
  azureApiVersion :: "string property"

datatype ClientType = OpenAI | AzureOpenAI | OSS

record client =
  clientType :: ClientType
  options :: options

datatype js_error =
    ThrownError string
  | ThrownTypeError
  | ThrownAxiosError int
  | ThrownNetworkError

definition UserAgent :: string where
  "UserAgent = ''AlphaWave''"

definition invalid_endpoint_message :: "string \<Rightarrow> string" where
  "invalid_endpoint_message e =
     ''Client created with an invalid endpoint of '' @ [CHR 0x27] @ e @ [CHR 0x27]
       @ ''. The endpoint must be a valid HTTPS url.''"

text \<open>
  The constructor. \<open>this.options\<close> is a fresh object: the defaults, overwritten by
  every own property of the caller's options. Calling \<open>trim\<close> on a missing
  \<open>azureEndpoint\<close> throws a TypeError.
\<close>

definition "constructor" :: "options \<Rightarrow> js_error + client" where
  "constructor opts =
     (if truthy (azureApiKey opts) then
        (let this_options = opts\<lparr>retryPolicy := assign_default [2000, 5000] (retryPolicy opts),
                                 azureApiVersion := assign_default ''2023-05-15'' (azureApiVersion opts)\<rparr>
         in case azureEndpoint this_options of
              Val e \<Rightarrow>
                (let endpoint0 = trim e;
                     endpoint1 = (if endsWith endpoint0 ''/''
                                  then substring endpoint0 0 (length endpoint0 - 1)
                                  else endpoint0)
                 in if \<not> startsWith (toLowerCase endpoint1) ''https://''
                    then Inl (ThrownError (invalid_endpoint_message endpoint1))
                    else Inr \<lparr>clientType = AzureOpenAI,
                              options = this_options\<lparr>azureEndpoint := Val endpoint1\<rparr>\<rparr>)
            | _ \<Rightarrow> Inl ThrownTypeError)
      else if truthy (ossModel opts) then
        Inr \<lparr>clientType = OSS,
             options = opts\<lparr>retryPolicy := assign_default [2000, 5000] (retryPolicy opts)\<rparr>\<rparr>
      else
        Inr \<lparr>clientType = OpenAI,
             options = opts\<lparr>retryPolicy := assign_default [2000, 5000] (retryPolicy opts)\<rparr>\<rparr>)"

section \<open>Requests, responses and the transport\<close>

datatype inputs = Single string | Batch "string list"

record CreateEmbeddingRequest =
  input :: inputs
  request_model :: "string property"

record embedding_item =
  index :: int
  embedding :: "real list"

text \<open>
  An HTTP response as the server gives it. \<open>data\<close> is the item list \<open>response.data.data\<close>,
  or \<open>None\<close> for a body that has no such list.
\<close>

record http_response =
  status :: int
  statusText :: string
  data :: "embedding_item list option"

text \<open>
  Modelled from the spec: the declaration of \<open>EmbeddingsResponse\<close> in the module
  \<open>./types\<close>, which is not among the sources. The spec's \<open>EmbeddingResult\<close> has the three
  tags; the object literals that \<open>createEmbeddings\<close> returns carry the status strings
  \<open>success\<close>, \<open>rate_limited\<close> and \<open>error\<close> with \<open>output\<close> or \<open>message\<close>.
\<close>

datatype EmbeddingsResponse =
    Success "real list list"
  | RateLimited string
  | Error string

text \<open>
  What the call does to the outside: the requests it puts on the wire and the delays it
  waits, in order.
\<close>

datatype event =
    Sent string CreateEmbeddingRequest headers
  | Slept int

record world =
  heap :: store
  wire :: "event list"

text \<open>
  The HTTP client is the axios instance that the constructor creates. Axios resolves a
  response whose status satisfies \<open>validateStatus\<close> and rejects any other.
\<close>

definition validateStatus :: "int \<Rightarrow> bool" where
  "validateStatus s = (s < 400 \<or> s = 429)"

definition settle :: "http_response \<Rightarrow> js_error + http_response" where
  "settle r = (if validateStatus (status r) then Inr r else Inl (ThrownAxiosError (status r)))"

definition falsy_header :: "string option \<Rightarrow> bool" where
  "falsy_header v = (v = None \<or> v = Some [])"

text \<open>
  The first part of \<open>post\<close>: the request configuration is a shallow copy of
  \<open>this.options.requestConfig\<close>, so its headers object is the caller's own when there
  is one, and a new empty object otherwise. The organization header is written only for
  a truthy \<open>organization\<close>, where \<open>template\<close> gives its value. \<open>init_request\<close>
  returns the headers as sent and the store after the writes.
\<close>

definition headers_ref :: "client \<Rightarrow> addr option" where
  "headers_ref c = (case requestConfig (options c) of Val rc \<Rightarrow> headers rc | _ \<Rightarrow> None)"

definition init_headers :: "client \<Rightarrow> headers \<Rightarrow> headers" where
  "init_headers c h0 =
     (let h1 = (if falsy_header (h0 ''Content-Type'')
                then h0(''Content-Type'' \<mapsto> ''application/json'') else h0);
          h2 = (if falsy_header (h1 ''User-Agent'')
                then h1(''User-Agent'' \<mapsto> UserAgent) else h1);
          h3 = h2(''Authorization'' \<mapsto> ''Bearer '' @ template (apiKey (options c)))
      in if truthy (organization (options c))
         then h3(''OpenAI-Organization'' \<mapsto> template (organization (options c)))
         else h3)"

definition init_request :: "client \<Rightarrow> store \<Rightarrow> headers \<times> store" where
  "init_request c h =
     (case headers_ref c of
        Some a \<Rightarrow> (init_headers c (h a), h(a := init_headers c (h a)))
      | None \<Rightarrow> (init_headers c Map.empty, h))"

text \<open>
  \<open>post\<close>, run against a scripted transport: the list of the responses that the server
  gives to the successive physical attempts. An attempt made when the script is used up
  fails in the transport, and axios rejects.
\<close>

fun post :: "client \<Rightarrow> string \<Rightarrow> CreateEmbeddingRequest \<Rightarrow> nat \<Rightarrow> world
               \<Rightarrow> http_response list \<Rightarrow> (js_error + http_response) \<times> world" where
  "post c url body retryCount w [] =
     (let (hs, h') = init_request c (heap w);
          w1 = w\<lparr>heap := h', wire := wire w @ [Sent url body hs]\<rparr>
      in (Inl ThrownNetworkError, w1))"
| "post c url body retryCount w (r # rs) =
     (let (hs, h') = init_request c (heap w);
          w1 = w\<lparr>heap := h', wire := wire w @ [Sent url body hs]\<rparr>
      in case settle r of
           Inl e \<Rightarrow> (Inl e, w1)
         | Inr response \<Rightarrow>
             if status response = 429 \<and> isArray (retryPolicy (options c))
                \<and> retryCount < length (elements (retryPolicy (options c)))
             then (let delay = elements (retryPolicy (options c)) ! retryCount
                   in post c url body (retryCount + 1) (w1\<lparr>wire := wire w1 @ [Slept delay]\<rparr>) rs)
             else (Inr response, w1))"

definition createEmbeddingRequest :: "client \<Rightarrow> CreateEmbeddingRequest \<Rightarrow> world
               \<Rightarrow> http_response list \<Rightarrow> (js_error + http_response) \<times> world" where
  "createEmbeddingRequest c request w rs =
     (let url = nullish_or (endpoint (options c)) ''https://api.openai.com'' @ ''/v1/embeddings'';
          request' = request\<lparr>request_model := model (options c)\<rparr>
      in post c url request' 0 w rs)"

text \<open>
  \<open>createEmbeddings\<close>. The console output under \<open>logRequests\<close> is not part of the model.
  The comparator \<open>a.index - b.index\<close> orders the items by index, and the sort is stable.
\<close>

definition createEmbeddings :: "client \<Rightarrow> inputs \<Rightarrow> world \<Rightarrow> http_response list
               \<Rightarrow> (js_error + EmbeddingsResponse) \<times> world" where
  "createEmbeddings c ins w rs =
     (case createEmbeddingRequest c \<lparr>input = ins, request_model = Absent\<rparr> w rs of
        (Inl e, w') \<Rightarrow> (Inl e, w')
      | (Inr response, w') \<Rightarrow>
          if status response < 300 then
            (case data response of
               None \<Rightarrow> (Inl ThrownTypeError, w')
             | Some items \<Rightarrow> (Inr (Success (map embedding (sort_key index items))), w'))
          else if status response = 429 then
            (Inr (RateLimited ''The embeddings API returned a rate limit error.''), w')
          else
            (Inr (Error (''The embeddings API returned an error status of ''
                          @ toString (status response) @ '': '' @ statusText response)), w'))"

section \<open>Observing a run\<close>

text \<open>The number of physical attempts in a stretch of the wire log, and the delays in it.\<close>

definition attempts :: "event list \<Rightarrow> nat" where
  "attempts tr = length (filter (\<lambda>e. case e of Sent u b h \<Rightarrow> True | Slept d \<Rightarrow> False) tr)"

definition delays :: "event list \<Rightarrow> int list" where
  "delays tr = concat (map (\<lambda>e. case e of Sent u b h \<Rightarrow> [] | Slept d \<Rightarrow> [d]) tr)"

text \<open>
  The wire log of a call that repeats the request \<open>req\<close> after each delay of \<open>sched\<close>:
  attempt, first delay, attempt, second delay, and so on, ending with an attempt.
\<close>

definition retry_trace :: "event \<Rightarrow> int list \<Rightarrow> event list" where
  "retry_trace req sched = concat (map (\<lambda>d. [req, Slept d]) sched) @ [req]"

text \<open>The requests in a stretch of the wire log: their URLs, bodies and headers.\<close>

fun sent_urls :: "event list \<Rightarrow> string list" where
  "sent_urls [] = []"
| "sent_urls (Sent u b h # es) = u # sent_urls es"
| "sent_urls (Slept d # es) = sent_urls es"

fun sent_bodies :: "event list \<Rightarrow> CreateEmbeddingRequest list" where
  "sent_bodies [] = []"
| "sent_bodies (Sent u b h # es) = b # sent_bodies es"
| "sent_bodies (Slept d # es) = sent_bodies es"

fun sent_headers :: "event list \<Rightarrow> headers list" where
  "sent_headers [] = []"
| "sent_headers (Sent u b h # es) = h # sent_headers es"
| "sent_headers (Slept d # es) = sent_headers es"

text \<open>What a call added to the wire log, from the worlds before and after it.\<close>

definition new_events :: "world \<Rightarrow> world \<Rightarrow> event list" where
  "new_events w w' = drop (length (wire w)) (wire w')"

text \<open>
  \<open>Array.prototype.sort\<close> sorts in place, so a response object that a scripted transport
  hands out a second time may hold its items already sorted.
\<close>

definition sorted_in_place :: "http_response \<Rightarrow> http_response" where
  "sorted_in_place r = r\<lparr>data := map_option (sort_key index) (data r)\<rparr>"

definition same_or_sorted :: "http_response \<Rightarrow> http_response \<Rightarrow> bool" where
  "same_or_sorted r r' = (r' = r \<or> r' = sorted_in_place r)"

text \<open>
  The response that \<open>post\<close> hands back, or the error it throws, as a function of the
  script alone.
\<close>

fun final_response :: "client \<Rightarrow> nat \<Rightarrow> http_response list \<Rightarrow> js_error + http_response" where
  "final_response c n [] = Inl ThrownNetworkError"
| "final_response c n (r # rs) =
     (case settle r of
        Inl e \<Rightarrow> Inl e
      | Inr response \<Rightarrow>
          if status response = 429 \<and> isArray (retryPolicy (options c))
             \<and> n < length (elements (retryPolicy (options c)))
          then final_response c (n + 1) rs
          else Inr response)"

section \<open>The endpoint rule in the spec's words\<close>

text \<open>
  The spec asks for the secure scheme without regard to case: the endpoint begins with
  the letters h, t, t, p, s, each small or capital, and then a colon and two slashes.
\<close>

definition is_https_any_case :: "string \<Rightarrow> bool" where
  "is_https_any_case s =
     (case s of
        c0 # c1 # c2 # c3 # c4 # c5 # c6 # c7 # rest \<Rightarrow>
          (c0 = CHR ''h'' \<or> c0 = CHR ''H'') \<and> (c1 = CHR ''t'' \<or> c1 = CHR ''T'')
          \<and> (c2 = CHR ''t'' \<or> c2 = CHR ''T'') \<and> (c3 = CHR ''p'' \<or> c3 = CHR ''P'')
          \<and> (c4 = CHR ''s'' \<or> c4 = CHR ''S'') \<and> c5 = CHR '':'' \<and> c6 = CHR ''/''
          \<and> c7 = CHR ''/''
      | _ \<Rightarrow> False)"

text \<open>Stripping one trailing slash.\<close>

definition strip_one_slash :: "string \<Rightarrow> string" where
  "strip_one_slash t = (if t \<noteq> [] \<and> last t = CHR ''/'' then butlast t else t)"

section \<open>Configurations and scripts used as examples\<close>

definition no_options :: options where
  "no_options = \<lparr>logRequests = Absent, retryPolicy = Absent, requestConfig = Absent,
     ossModel = Absent, ossEndpoint = Absent, apiKey = Absent, model = Absent,
     organization = Absent, endpoint = Absent, azureApiKey = Absent, azureEndpoint = Absent,
     azureDeployment = Absent, azureApiVersion = Absent\<rparr>"

definition openai_options :: options where
  "openai_options = no_options\<lparr>apiKey := Val ''sk-key'', model := Val ''text-embedding-ada-002''\<rparr>"

definition openai_client :: client where
  "openai_client = \<lparr>clientType = OpenAI, options = openai_options\<lparr>retryPolicy := Val [2000, 5000]\<rparr>\<rparr>"

definition empty_world :: world where
  "empty_world = \<lparr>heap = (\<lambda>a. Map.empty), wire = []\<rparr>"

definition reply :: "int \<Rightarrow> string \<Rightarrow> http_response" where
  "reply s t = \<lparr>status = s, statusText = t, data = None\<rparr>"

definition ok_reply :: "embedding_item list \<Rightarrow> http_response" where
  "ok_reply items = \<lparr>status = 200, statusText = ''OK'', data = Some items\<rparr>"

definition azure_options :: options where
  "azure_options = no_options\<lparr>azureApiKey := Val ''azure-key'',
     azureEndpoint := Val ''  https://x.openai.azure.com/ '', azureDeployment := Val ''dep''\<rparr>"

definition azure_client :: client where
  "azure_client = \<lparr>clientType = AzureOpenAI,
     options = azure_options\<lparr>retryPolicy := Val [2000, 5000],
       azureApiVersion := Val ''2023-05-15'',
       azureEndpoint := Val ''https://x.openai.azure.com''\<rparr>\<rparr>"

definition oss_options :: options where
  "oss_options = no_options\<lparr>ossModel := Val ''all-MiniLM-L6-v2'',
     ossEndpoint := Val ''https://oss.example''\<rparr>"

definition mixed_options :: options where
  "mixed_options = azure_options\<lparr>ossModel := Val ''all-MiniLM-L6-v2'',
     ossEndpoint := Val ''https://oss.example'', apiKey := Val ''sk-key'',
     model := Val ''text-embedding-ada-002''\<rparr>"

definition empty_key_options :: options where
  "empty_key_options = openai_options\<lparr>azureApiKey := Val [],
     azureEndpoint := Val ''https://x.openai.azure.com'', azureDeployment := Val ''dep''\<rparr>"

definition mixed_client :: client where
  "mixed_client = \<lparr>clientType = AzureOpenAI,
     options = mixed_options\<lparr>retryPolicy := Val [2000, 5000],
       azureApiVersion := Val ''2023-05-15'',
       azureEndpoint := Val ''https://x.openai.azure.com''\<rparr>\<rparr>"

definition oss_client :: client where
  "oss_client = \<lparr>clientType = OSS, options = oss_options\<lparr>retryPolicy := Val [2000, 5000]\<rparr>\<rparr>"

definition shared_headers_client :: client where
  "shared_headers_client = openai_client\<lparr>options := (options openai_client)
     \<lparr>requestConfig := Val \<lparr>headers = Some 7, timeout = None\<rparr>\<rparr>\<rparr>"

definition caller_world :: world where
  "caller_world = \<lparr>heap = (\<lambda>a. if a = 7 then [''X-Trace'' \<mapsto> ''on''] else Map.empty), wire = []\<rparr>"

definition example_items :: "embedding_item list" where
  "example_items = [\<lparr>index = 1, embedding = [0, 1]\<rparr>, \<lparr>index = 0, embedding = [1, 0]\<rparr>]"

section \<open>Facts about the request headers and the retry loop\<close>

lemma falsy_header_Some [simp]: "falsy_header (Some v) = (v = [])"
  by (simp add: falsy_header_def)

lemma init_headers_idem: "init_headers c (init_headers c h) = init_headers c h"
  by (auto simp: init_headers_def Let_def UserAgent_def fun_upd_twist intro!: ext)

lemma init_request_idem: "init_request c (snd (init_request c h)) = init_request c h"
  by (simp add: init_request_def init_headers_idem split: option.splits)

lemma settle_429: "status r = 429 \<Longrightarrow> settle r = Inr r"
  by (simp add: settle_def validateStatus_def)

lemma settle_not_429:
  "status r \<noteq> 429 \<Longrightarrow>
     settle r = (if status r < 400 then Inr r else Inl (ThrownAxiosError (status r)))"
  by (simp add: settle_def validateStatus_def)

lemma constructor_openai_options: "constructor openai_options = Inr openai_client"
  by (simp add: constructor_def openai_options_def openai_client_def no_options_def)

text \<open>A script of rate-limit responses longer than what is left of the schedule.\<close>

lemma post_all_429:
  assumes "retryPolicy (options c) = Val sched"
  shows "\<forall>r\<in>set rs. status r = 429 \<Longrightarrow> n \<le> length sched \<Longrightarrow> length sched - n < length rs \<Longrightarrow>
    post c url body n w rs =
      (Inr (rs ! (length sched - n)),
       w\<lparr>heap := snd (init_request c (heap w)),
         wire := wire w @ retry_trace (Sent url body (fst (init_request c (heap w)))) (drop n sched)\<rparr>)"
proof (induction rs arbitrary: n w)
  case Nil
  then show ?case by simp
next
  case (Cons r rs)
  obtain hs h' where ir: "init_request c (heap w) = (hs, h')"
    by (cases "init_request c (heap w)")
  have ir': "init_request c h' = (hs, h')"
    using init_request_idem[of c "heap w"] ir by simp
  have st: "settle r = Inr r"
    using Cons.prems(1) by (simp add: settle_429)
  show ?case
  proof (cases "n < length sched")
    case True
    have d: "drop n sched = sched ! n # drop (Suc n) sched"
      using True by (simp add: Cons_nth_drop_Suc)
    have ih: "post c url body (Suc n) w' rs = (Inr (rs ! (length sched - Suc n)),
       w'\<lparr>heap := snd (init_request c (heap w')),
         wire := wire w' @ retry_trace (Sent url body (fst (init_request c (heap w'))))
                   (drop (Suc n) sched)\<rparr>)" for w'
      using Cons.IH[of "Suc n" w'] Cons.prems True by auto
    have nth: "(r # rs) ! (length sched - n) = rs ! (length sched - Suc n)"
    proof -
      have "length sched - n = Suc (length sched - Suc n)"
        using True by arith
      then show ?thesis by simp
    qed
    show ?thesis
      using True Cons.prems(1)
      by (simp add: ir st assms ih ir' d nth retry_trace_def del: nth_Cons_Suc)
  next
    case False
    then have "n = length sched"
      using Cons.prems by simp
    then show ?thesis
      using Cons.prems(1) by (simp add: ir st assms retry_trace_def)
  qed
qed

text \<open>Rate-limit responses within the schedule, then a response of another status.\<close>

lemma post_retries_then_final:
  "\<forall>p\<in>set pre. status p = 429 \<Longrightarrow>
   n + length pre \<le> length (elements (retryPolicy (options c))) \<Longrightarrow>
   status r \<noteq> 429 \<Longrightarrow>
    post c url body n w (pre @ r # rs) =
      (settle r,
       w\<lparr>heap := snd (init_request c (heap w)),
         wire := wire w @ retry_trace (Sent url body (fst (init_request c (heap w))))
                            (take (length pre) (drop n (elements (retryPolicy (options c)))))\<rparr>)"
proof (induction pre arbitrary: n w)
  case Nil
  obtain hs h' where ir: "init_request c (heap w) = (hs, h')"
    by (cases "init_request c (heap w)")
  show ?case
    using Nil.prems(3) by (simp add: ir retry_trace_def settle_def split: sum.splits)
next
  case (Cons p pre)
  obtain hs h' where ir: "init_request c (heap w) = (hs, h')"
    by (cases "init_request c (heap w)")
  have ir': "init_request c h' = (hs, h')"
    using init_request_idem[of c "heap w"] ir by simp
  have st: "settle p = Inr p" and p429: "status p = 429"
    using Cons.prems(1) by (simp_all add: settle_429)
  have lt: "n < length (elements (retryPolicy (options c)))"
    using Cons.prems(2) by simp
  then have arr: "isArray (retryPolicy (options c))"
    by (cases "retryPolicy (options c)") auto
  have d: "drop n (elements (retryPolicy (options c)))
             = elements (retryPolicy (options c)) ! n
               # drop (Suc n) (elements (retryPolicy (options c)))"
    using lt by (simp add: Cons_nth_drop_Suc)
  have ih: "post c url body (Suc n) w' (pre @ r # rs) = (settle r,
       w'\<lparr>heap := snd (init_request c (heap w')),
         wire := wire w' @ retry_trace (Sent url body (fst (init_request c (heap w'))))
                   (take (length pre) (drop (Suc n) (elements (retryPolicy (options c)))))\<rparr>)" for w'
    using Cons.IH[of "Suc n" w'] Cons.prems by auto
  show ?case
    by (simp add: ir st p429 lt arr ih ir' d retry_trace_def)
qed

lemma attempts_retry_trace: "attempts (retry_trace (Sent u b h) sched) = length sched + 1"
  by (induction sched) (simp_all add: attempts_def retry_trace_def)

lemma delays_retry_trace: "delays (retry_trace (Sent u b h) sched) = sched"
  by (induction sched) (simp_all add: delays_def retry_trace_def)

lemma fst_post: "fst (post c url body n w rs) = final_response c n rs"
proof (induction rs arbitrary: n w)
  case Nil
  show ?case by (simp add: split_beta Let_def)
next
  case (Cons r rs)
  show ?case
    by (simp add: split_beta Let_def Cons.IH split: sum.splits)
qed

lemma heap_post: "heap (snd (post c url body n w rs)) = snd (init_request c (heap w))"
proof (induction rs arbitrary: n w)
  case Nil
  show ?case by (simp add: split_beta Let_def)
next
  case (Cons r rs)
  show ?case
    by (simp add: split_beta Let_def Cons.IH init_request_idem split: sum.splits)
qed

text \<open>The same at the level of \<open>createEmbeddingRequest\<close>, from the first attempt.\<close>

lemma createEmbeddings_final:
  assumes "\<forall>p\<in>set pre. status p = 429"
    and "length pre \<le> length (elements (retryPolicy (options c)))"
    and "status r \<noteq> 429"
  shows "createEmbeddingRequest c \<lparr>input = ins, request_model = Absent\<rparr> w (pre @ r # rs) =
      (settle r,
       w\<lparr>heap := snd (init_request c (heap w)),
         wire := wire w @ retry_trace
            (Sent (nullish_or (endpoint (options c)) ''https://api.openai.com'' @ ''/v1/embeddings'')
                  \<lparr>input = ins, request_model = model (options c)\<rparr>
                  (fst (init_request c (heap w))))
            (take (length pre) (elements (retryPolicy (options c))))\<rparr>)"
  using post_retries_then_final[OF assms(1) _ assms(3), of 0 c] assms(2)
  by (simp add: createEmbeddingRequest_def)

subsection \<open>Strings and the endpoint\<close>

lemma char_of_eq_nat: "n < 256 \<Longrightarrow> char_of (n::nat) = d \<longleftrightarrow> n = of_char d"
  by (metis char_of_char of_char_of mod_less)

lemma char_eq_nat: "c = d \<longleftrightarrow> (of_char c :: nat) = of_char d"
  by simp

lemma toLowerChar_letter:
  assumes "(of_char d :: nat) = k" and "(of_char u :: nat) = k - 32" and "97 \<le> k" and "k \<le> 122"
  shows "d = toLowerChar c \<longleftrightarrow> c = d \<or> c = u"
proof -
  have lt: "(of_char c :: nat) < 256" by simp
  have "toLowerChar c = d \<longleftrightarrow> (of_char c :: nat) = k \<or> (of_char c :: nat) = k - 32"
    using lt assms by (auto simp: toLowerChar_def Let_def char_of_eq_nat char_eq_nat[of c d])
  then have "toLowerChar c = d \<longleftrightarrow> c = d \<or> c = u"
    using assms(1,2) by (simp add: char_eq_nat[of c d] char_eq_nat[of c u])
  then show ?thesis by auto
qed

lemma toLowerChar_other:
  assumes "(of_char d :: nat) < 65"
  shows "d = toLowerChar c \<longleftrightarrow> c = d"
proof -
  have lt: "(of_char c :: nat) < 256" by simp
  have "toLowerChar c = d \<longleftrightarrow> (of_char c :: nat) = of_char d"
    using lt assms by (auto simp: toLowerChar_def Let_def char_of_eq_nat)
  then show ?thesis by auto
qed

lemma startsWith_https:
  "startsWith (toLowerCase s) ''https://'' = is_https_any_case s"
  by (simp add: startsWith_def toLowerCase_def is_https_any_case_def
        toLowerChar_letter[of "CHR ''h''" 104 "CHR ''H''"]
        toLowerChar_letter[of "CHR ''t''" 116 "CHR ''T''"]
        toLowerChar_letter[of "CHR ''p''" 112 "CHR ''P''"]
        toLowerChar_letter[of "CHR ''s''" 115 "CHR ''S''"]
        toLowerChar_other[of "CHR '':''"] toLowerChar_other[of "CHR ''/''"]
      split: list.splits)

lemma trim_decompose:
  "\<exists>l r. s = l @ trim s @ r \<and> list_all isWhiteSpace l \<and> list_all isWhiteSpace r"
proof -
  let ?a = "dropWhile isWhiteSpace s"
  have 1: "s = takeWhile isWhiteSpace s @ ?a" by simp
  have 2: "rev ?a = takeWhile isWhiteSpace (rev ?a) @ dropWhile isWhiteSpace (rev ?a)" by simp
  have "?a = rev (dropWhile isWhiteSpace (rev ?a)) @ rev (takeWhile isWhiteSpace (rev ?a))"
    by (metis 2 rev_append rev_rev_ident)
  then have "s = takeWhile isWhiteSpace s @ trim s @ rev (takeWhile isWhiteSpace (rev ?a))"
    using 1 by (metis trim_def)
  moreover have "list_all isWhiteSpace (takeWhile isWhiteSpace s)"
    by (simp add: list_all_iff) (meson set_takeWhileD)
  moreover have "list_all isWhiteSpace (rev (takeWhile isWhiteSpace (rev ?a)))"
    by (simp add: list_all_iff) (meson set_takeWhileD)
  ultimately show ?thesis by blast
qed

lemma trim_ends:
  "trim s = [] \<or> (\<not> isWhiteSpace (hd (trim s)) \<and> \<not> isWhiteSpace (last (trim s)))"
proof (cases "trim s = []")
  case True then show ?thesis by simp
next
  case False
  let ?a = "dropWhile isWhiteSpace s"
  let ?b = "dropWhile isWhiteSpace (rev ?a)"
  have b: "?b \<noteq> []" using False by (simp add: trim_def)
  then have "\<not> isWhiteSpace (hd ?b)" by (metis hd_dropWhile)
  then have l: "\<not> isWhiteSpace (last (trim s))" using b by (simp add: trim_def last_rev)
  have a: "?a \<noteq> []"
  proof
    assume "?a = []"
    then have "?b = []" by (metis dropWhile.simps(1) rev.simps(1))
    with b show False by simp
  qed
  then have ha: "\<not> isWhiteSpace (hd ?a)" by (metis hd_dropWhile)
  have "rev ?a = takeWhile isWhiteSpace (rev ?a) @ ?b" by simp
  then have "?a = rev ?b @ rev (takeWhile isWhiteSpace (rev ?a))" by (metis rev_append rev_rev_ident)
  then have "hd ?a = hd (rev ?b)" using b by (metis hd_append2 rev_is_Nil_conv)
  then show ?thesis using ha l by (simp add: trim_def)
qed

lemma endsWith_slash: "endsWith t ''/'' \<longleftrightarrow> t \<noteq> [] \<and> last t = CHR ''/''"
  by (cases t rule: rev_cases) (simp_all add: endsWith_def suffix_def)

lemma substring_butlast: "substring t 0 (length t - 1) = butlast t"
  by (simp add: substring_def butlast_conv_take)

lemma normalize_endpoint:
  "(if endsWith t ''/'' then substring t 0 (length t - 1) else t) = strip_one_slash t"
  using substring_butlast[of t] by (simp add: endsWith_slash strip_one_slash_def)

lemma constructor_mixed_options: "constructor mixed_options = Inr mixed_client"
  by (simp add: constructor_def mixed_options_def mixed_client_def azure_options_def
        no_options_def Let_def normalize_endpoint startsWith_https trim_def isWhiteSpace_def
        strip_one_slash_def is_https_any_case_def)

subsection \<open>The call as a whole\<close>

lemma constructor_azure_options: "constructor azure_options = Inr azure_client"
  by (simp add: constructor_def azure_options_def azure_client_def
        no_options_def Let_def normalize_endpoint startsWith_https trim_def isWhiteSpace_def
        strip_one_slash_def is_https_any_case_def)

lemma constructor_oss_options: "constructor oss_options = Inr oss_client"
  by (simp add: constructor_def oss_options_def oss_client_def no_options_def)

lemma init_headers_clientType: "init_headers (c\<lparr>clientType := t\<rparr>) h = init_headers c h"
  by (simp add: init_headers_def Let_def cong: if_cong)

lemma init_request_clientType [simp]: "init_request (c\<lparr>clientType := t\<rparr>) h = init_request c h"
  by (simp add: init_request_def headers_ref_def init_headers_clientType split: option.splits)

lemma post_clientType: "post (c\<lparr>clientType := t\<rparr>) url body n w rs = post c url body n w rs"
  by (induction rs arbitrary: n w) (simp_all add: split_beta Let_def cong: if_cong sum.case_cong)

lemma fst_createEmbeddings:
  "fst (createEmbeddings c ins w rs) =
     (case final_response c 0 rs of
        Inl e \<Rightarrow> Inl e
      | Inr response \<Rightarrow>
          if status response < 300 then
            (case data response of
               None \<Rightarrow> Inl ThrownTypeError
             | Some items \<Rightarrow> Inr (Success (map embedding (sort_key index items))))
          else if status response = 429 then
            Inr (RateLimited ''The embeddings API returned a rate limit error.'')
          else
            Inr (Error (''The embeddings API returned an error status of ''
                          @ toString (status response) @ '': '' @ statusText response)))"
proof -
  obtain x w' where p: "createEmbeddingRequest c \<lparr>input = ins, request_model = Absent\<rparr> w rs = (x, w')"
    by (cases "createEmbeddingRequest c \<lparr>input = ins, request_model = Absent\<rparr> w rs")
  then have "x = fst (post c (nullish_or (endpoint (options c)) ''https://api.openai.com'' @ ''/v1/embeddings'')
                    \<lparr>input = ins, request_model = model (options c)\<rparr> 0 w rs)"
    by (simp add: createEmbeddingRequest_def)
  then have "x = final_response c 0 rs"
    by (simp only: fst_post)
  then show ?thesis
    by (simp add: createEmbeddings_def p split: sum.splits option.splits)
qed

lemma heap_createEmbeddings:
  "heap (snd (createEmbeddings c ins w rs)) = snd (init_request c (heap w))"
proof -
  obtain x w' where p: "createEmbeddingRequest c \<lparr>input = ins, request_model = Absent\<rparr> w rs = (x, w')"
    by (cases "createEmbeddingRequest c \<lparr>input = ins, request_model = Absent\<rparr> w rs")
  then have "w' = snd (post c (nullish_or (endpoint (options c)) ''https://api.openai.com'' @ ''/v1/embeddings'')
                    \<lparr>input = ins, request_model = model (options c)\<rparr> 0 w rs)"
    by (simp add: createEmbeddingRequest_def)
  then have "heap w' = snd (init_request c (heap w))"
    by (simp only: heap_post)
  then show ?thesis
    by (simp add: createEmbeddings_def p split: sum.splits option.splits)
qed

lemma wire_createEmbeddings:
  "wire (snd (createEmbeddings c ins w rs))
     = wire (snd (post c (nullish_or (endpoint (options c)) ''https://api.openai.com'' @ ''/v1/embeddings'')
                    \<lparr>input = ins, request_model = model (options c)\<rparr> 0 w rs))"
proof -
  obtain x w' where p: "createEmbeddingRequest c \<lparr>input = ins, request_model = Absent\<rparr> w rs = (x, w')"
    by (cases "createEmbeddingRequest c \<lparr>input = ins, request_model = Absent\<rparr> w rs")
  show ?thesis
    using p by (simp add: createEmbeddings_def createEmbeddingRequest_def split: sum.splits option.splits)
qed

lemma sort_key_idem: "sort_key f (sort_key f xs) = sort_key f xs"
  by (simp add: sort_key_id_if_sorted)

lemma final_response_same_or_sorted:
  "list_all2 same_or_sorted rs rs' \<Longrightarrow>
     rel_sum (=) same_or_sorted (final_response c n rs) (final_response c n rs')"
proof (induction rs rs' arbitrary: n rule: list_all2_induct)
  case Nil
  show ?case by simp
next
  case (Cons r rs r' rs')
  have st: "status r' = status r"
    using Cons.hyps(1) by (auto simp: same_or_sorted_def sorted_in_place_def)
  show ?case
    using Cons.hyps(1) Cons.IH[of "Suc n"]
    by (simp add: settle_def st)
qed

lemma post_wire_same:
  "list_all2 same_or_sorted rs rs' \<Longrightarrow>
   fst (init_request c (heap w)) = fst (init_request c (heap w')) \<Longrightarrow>
     \<exists>tr. wire (snd (post c url body n w rs)) = wire w @ tr
        \<and> wire (snd (post c url body n w' rs')) = wire w' @ tr"
proof (induction rs rs' arbitrary: n w w' rule: list_all2_induct)
  case Nil
  then show ?case by (simp add: split_beta)
next
  case (Cons r rs r' rs')
  obtain hs h1 where ir: "init_request c (heap w) = (hs, h1)"
    by (cases "init_request c (heap w)")
  obtain hs' h1' where ir': "init_request c (heap w') = (hs', h1')"
    by (cases "init_request c (heap w')")
  have hs: "hs' = hs"
    using Cons.prems ir ir' by simp
  have st: "status r' = status r"
    using Cons.hyps(1) by (auto simp: same_or_sorted_def sorted_in_place_def)
  have again: "fst (init_request c h1) = fst (init_request c h1')"
    using init_request_idem[of c "heap w"] init_request_idem[of c "heap w'"] ir ir' hs by simp
  show ?case
  proof (cases "status r = 429 \<and> isArray (retryPolicy (options c))
                 \<and> n < length (elements (retryPolicy (options c)))")
    case True
    let ?d = "elements (retryPolicy (options c)) ! n"
    let ?w2 = "w\<lparr>heap := h1, wire := wire w @ [Sent url body hs, Slept ?d]\<rparr>"
    let ?w2' = "w'\<lparr>heap := h1', wire := wire w' @ [Sent url body hs, Slept ?d]\<rparr>"
    have "fst (init_request c (heap ?w2)) = fst (init_request c (heap ?w2'))"
      using again by simp
    from Cons.IH[OF this, of "Suc n"] obtain tr where
      tr: "wire (snd (post c url body (Suc n) ?w2 rs)) = wire ?w2 @ tr"
          "wire (snd (post c url body (Suc n) ?w2' rs')) = wire ?w2' @ tr"
      by blast
    have "wire (snd (post c url body n w (r # rs))) = wire w @ ([Sent url body hs, Slept ?d] @ tr)"
      using True tr(1) by (simp add: ir settle_429)
    moreover have "wire (snd (post c url body n w' (r' # rs'))) = wire w' @ ([Sent url body hs, Slept ?d] @ tr)"
      using True tr(2) by (simp add: ir' hs st settle_429)
    ultimately show ?thesis by blast
  next
    case False
    have "wire (snd (post c url body n w (r # rs))) = wire w @ [Sent url body hs]"
      using False by (cases "settle r") (auto simp: ir settle_def split: if_splits)
    moreover have "wire (snd (post c url body n w' (r' # rs'))) = wire w' @ [Sent url body hs]"
      using False by (cases "settle r'") (auto simp: ir' hs st settle_def split: if_splits)
    ultimately show ?thesis by blast
  qed
qed

lemma list_all2_same_or_sorted_refl: "list_all2 same_or_sorted rs rs"
  by (simp add: list_all2_refl same_or_sorted_def)

section \<open>The claims\<close>

text \<open>
  C1, as the code has it. The constructor tests the two fields for truthiness, so a
  gateway credential that is present and empty does not select the gateway variant: with
  an empty \<open>azureApiKey\<close> and no \<open>ossModel\<close> the client is the OpenAI one.
\<close>

theorem constructor_empty_key_not_azure:
  "azureApiKey empty_key_options = Val []
   \<and> constructor empty_key_options
       = Inr \<lparr>clientType = OpenAI, options = empty_key_options\<lparr>retryPolicy := Val [2000, 5000]\<rparr>\<rparr>"
  by (simp add: constructor_def empty_key_options_def openai_options_def no_options_def)

text \<open>
  C1, amended. Whenever the constructor returns a client, its variant is the first match
  of: Azure when \<open>azureApiKey\<close> is present and not empty, else OSS when \<open>ossModel\<close> is
  present and not empty, else OpenAI. The constructor can throw only in the Azure branch.
\<close>

theorem constructor_variant_precedence:
  "(\<forall>c. constructor opts = Inr c \<longrightarrow>
        clientType c = (if truthy (azureApiKey opts) then AzureOpenAI
                        else if truthy (ossModel opts) then OSS else OpenAI))
   \<and> (\<not> truthy (azureApiKey opts) \<longrightarrow> (\<exists>c. constructor opts = Inr c))"
  by (auto simp: constructor_def Let_def split: property.splits if_splits)

theorem constructor_variant_precedence_witness:
  "constructor mixed_options = Inr mixed_client
   \<and> truthy (azureApiKey mixed_options) \<and> truthy (ossModel mixed_options)
   \<and> clientType mixed_client = AzureOpenAI
   \<and> truthy (azureApiKey oss_options) = False \<and> truthy (ossModel oss_options)
   \<and> (\<exists>c. constructor oss_options = Inr c \<and> clientType c = OSS)"
proof -
  have a: "truthy (azureApiKey mixed_options)" "truthy (ossModel mixed_options)"
    by (simp_all add: mixed_options_def azure_options_def no_options_def)
  have b: "clientType mixed_client = AzureOpenAI"
    using constructor_variant_precedence [of mixed_options] constructor_mixed_options a
    by simp
  have c: "\<not> truthy (azureApiKey oss_options)" "truthy (ossModel oss_options)"
    by (simp_all add: oss_options_def no_options_def)
  have d: "\<exists>c. constructor oss_options = Inr c \<and> clientType c = OSS"
    using constructor_variant_precedence [of oss_options] c by auto
  show ?thesis
    using constructor_mixed_options a b c d by simp
qed

text \<open>
  C2. When every response is a 429 and the script is longer than the retry schedule,
  one call of \<open>createEmbeddings\<close> returns the rate-limited result and throws nothing. It
  makes one attempt more than the schedule has delays, and what it adds to the wire log
  is one and the same request repeated, with the delays of the schedule between the
  attempts, each once and in the order of the schedule.
\<close>

theorem createEmbeddings_all_429:
  assumes "retryPolicy (options c) = Val sched"
    and "\<forall>r\<in>set rs. status r = 429"
    and "length sched < length rs"
  shows "fst (createEmbeddings c ins w rs)
           = Inr (RateLimited ''The embeddings API returned a rate limit error.'')
       \<and> (\<exists>u b h. wire (snd (createEmbeddings c ins w rs)) = wire w @ retry_trace (Sent u b h) sched)
       \<and> attempts (drop (length (wire w)) (wire (snd (createEmbeddings c ins w rs)))) = length sched + 1
       \<and> delays (drop (length (wire w)) (wire (snd (createEmbeddings c ins w rs)))) = sched"
proof -
  let ?url = "nullish_or (endpoint (options c)) ''https://api.openai.com'' @ ''/v1/embeddings''"
  let ?body = "\<lparr>input = ins, request_model = model (options c)\<rparr>"
  let ?req = "Sent ?url ?body (fst (init_request c (heap w)))"
  have nth: "rs ! length sched \<in> set rs"
    using assms(3) by simp
  have p: "post c ?url ?body 0 w rs =
      (Inr (rs ! length sched),
       w\<lparr>heap := snd (init_request c (heap w)), wire := wire w @ retry_trace ?req sched\<rparr>)"
    using post_all_429[OF assms(1,2), of 0 ?url ?body w] assms(3) by simp
  have s: "status (rs ! length sched) = 429"
    using assms(2) nth by blast
  have res: "createEmbeddings c ins w rs =
      (Inr (RateLimited ''The embeddings API returned a rate limit error.''),
       w\<lparr>heap := snd (init_request c (heap w)), wire := wire w @ retry_trace ?req sched\<rparr>)"
    by (simp add: createEmbeddings_def createEmbeddingRequest_def p s)
  show ?thesis
    unfolding res by (simp add: attempts_retry_trace delays_retry_trace) blast
qed

theorem createEmbeddings_all_429_witness:
  "retryPolicy (options openai_client) = Val [2000, 5000]
   \<and> map status [reply 429 ''Too Many Requests'', reply 429 ''Too Many Requests'',
                  reply 429 ''Too Many Requests''] = [429, 429, 429]
   \<and> length [2000, 5000 :: int]
        < length [reply 429 ''Too Many Requests'', reply 429 ''Too Many Requests'',
                  reply 429 ''Too Many Requests'']
   \<and> fst (createEmbeddings openai_client (Single ''a'') empty_world
             [reply 429 ''Too Many Requests'', reply 429 ''Too Many Requests'',
              reply 429 ''Too Many Requests''])
         = Inr (RateLimited ''The embeddings API returned a rate limit error.'')
   \<and> attempts (wire (snd (createEmbeddings openai_client (Single ''a'') empty_world
             [reply 429 ''Too Many Requests'', reply 429 ''Too Many Requests'',
              reply 429 ''Too Many Requests'']))) = 3
   \<and> delays (wire (snd (createEmbeddings openai_client (Single ''a'') empty_world
             [reply 429 ''Too Many Requests'', reply 429 ''Too Many Requests'',
              reply 429 ''Too Many Requests'']))) = [2000, 5000]"
  using createEmbeddings_all_429 [of openai_client "[2000, 5000]"
          "[reply 429 ''Too Many Requests'', reply 429 ''Too Many Requests'',
            reply 429 ''Too Many Requests'']" "Single ''a''" empty_world]
  by (simp add: openai_client_def reply_def empty_world_def)

text \<open>
  C3. When the final response has a status below 300 and its body holds a list of
  items, in whatever order, \<open>createEmbeddings\<close> returns the success result whose
  vectors are the embeddings of the items taken in ascending order of index: the indexes
  are dropped, the sorted list is a rearrangement of the items, and items of equal index
  keep their order. The final response may come after rate-limit responses that the
  retry schedule covers. For the inputs a and b and the items of index 1 and 0 the
  result is the vectors (1, 0) and (0, 1).
\<close>

theorem createEmbeddings_success_sorted:
  assumes "\<forall>p\<in>set pre. status p = 429"
    and "length pre \<le> length (elements (retryPolicy (options c)))"
    and "status r < 300"
    and "data r = Some items"
  shows "fst (createEmbeddings c ins w (pre @ r # rs))
           = Inr (Success (map embedding (sort_key index items)))
       \<and> sorted (map index (sort_key index items))
       \<and> mset (sort_key index items) = mset items
       \<and> (\<forall>k. filter (\<lambda>i. index i = k) (sort_key index items) = filter (\<lambda>i. index i = k) items)"
proof -
  have ne: "status r \<noteq> 429" using assms(3) by simp
  have st: "settle r = Inr r" using assms(3) by (simp add: settle_def validateStatus_def)
  have "fst (createEmbeddings c ins w (pre @ r # rs))
           = Inr (Success (map embedding (sort_key index items)))"
    by (simp add: createEmbeddings_def createEmbeddings_final[OF assms(1,2) ne] st assms(3,4))
  then show ?thesis
    by (simp add: stable_sort_key_def[symmetric] sort_key_stable)
qed

theorem createEmbeddings_success_sorted_witness:
  "map status [reply 429 ''Too Many Requests''] = [429]
   \<and> length [reply 429 ''Too Many Requests'']
        \<le> length (elements (retryPolicy (options openai_client)))
   \<and> status (ok_reply example_items) < 300
   \<and> data (ok_reply example_items)
        = Some [\<lparr>index = 1, embedding = [0, 1]\<rparr>, \<lparr>index = 0, embedding = [1, 0]\<rparr>]
   \<and> fst (createEmbeddings openai_client (Batch [''a'', ''b'']) empty_world
            [reply 429 ''Too Many Requests'', ok_reply example_items])
        = Inr (Success [ [1, 0], [0, 1] ])"
  using createEmbeddings_success_sorted [of "[reply 429 ''Too Many Requests'']" openai_client
      "ok_reply example_items"
      "[\<lparr>index = 1, embedding = [0, 1]\<rparr>, \<lparr>index = 0, embedding = [1, 0]\<rparr>]"
      "Batch [''a'', ''b'']" empty_world "[]"]
  by (simp add: ok_reply_def reply_def example_items_def openai_client_def)

text \<open>
  C4, as the code has it. A final response of status 500 makes the call throw: the HTTP
  client rejects every status from 400 up other than 429.
\<close>

theorem createEmbeddings_status_500_throws:
  "fst (createEmbeddings openai_client (Single ''a'') empty_world
          [reply 500 ''Internal Server Error'']) = Inl (ThrownAxiosError 500)"
  by (simp add: createEmbeddings_def createEmbeddingRequest_def reply_def settle_def
        validateStatus_def split_beta)

text \<open>
  C4, amended. For a final response whose status is 300 or more and not 429: below 400
  the call returns the error result, and its message holds the status code in decimal
  and the status text; from 400 up the HTTP client rejects the response and the call
  throws. In both cases no attempt follows the final response, so a first response of
  that kind means one attempt and no delay.
\<close>

theorem createEmbeddings_error_status:
  assumes "\<forall>p\<in>set pre. status p = 429"
    and "length pre \<le> length (elements (retryPolicy (options c)))"
    and "300 \<le> status r"
    and "status r \<noteq> 429"
  shows "fst (createEmbeddings c ins w (pre @ r # rs))
           = (if status r < 400
              then Inr (Error (''The embeddings API returned an error status of ''
                                @ toString (status r) @ '': '' @ statusText r))
              else Inl (ThrownAxiosError (status r)))
       \<and> attempts (drop (length (wire w)) (wire (snd (createEmbeddings c ins w (pre @ r # rs)))))
           = length pre + 1
       \<and> delays (drop (length (wire w)) (wire (snd (createEmbeddings c ins w (pre @ r # rs)))))
           = take (length pre) (elements (retryPolicy (options c)))"
proof (cases "status r < 400")
  case True
  have st: "settle r = Inr r"
    using True by (simp add: settle_def validateStatus_def)
  show ?thesis
    using True assms(2,3,4)
    by (simp add: createEmbeddings_def createEmbeddings_final[OF assms(1,2,4)] st
          attempts_retry_trace delays_retry_trace)
next
  case False
  have st: "settle r = Inl (ThrownAxiosError (status r))"
    using False assms(4) by (simp add: settle_def validateStatus_def)
  show ?thesis
    using False assms(2)
    by (simp add: createEmbeddings_def createEmbeddings_final[OF assms(1,2,4)] st
          attempts_retry_trace delays_retry_trace)
qed

theorem createEmbeddings_error_status_witness:
  "map status ([] :: http_response list) = []
   \<and> length ([] :: http_response list) \<le> length (elements (retryPolicy (options openai_client)))
   \<and> 300 \<le> status (reply 304 ''Not Modified'')
   \<and> status (reply 304 ''Not Modified'') \<noteq> 429
   \<and> fst (createEmbeddings openai_client (Single ''a'') empty_world [reply 304 ''Not Modified''])
        = Inr (Error ''The embeddings API returned an error status of 304: Not Modified'')
   \<and> attempts (wire (snd (createEmbeddings openai_client (Single ''a'') empty_world
                            [reply 304 ''Not Modified'']))) = 1
   \<and> delays (wire (snd (createEmbeddings openai_client (Single ''a'') empty_world
                            [reply 304 ''Not Modified'']))) = []"
  using createEmbeddings_error_status [of "[]" openai_client "reply 304 ''Not Modified''"
      "Single ''a''" empty_world "[]"]
  by (simp add: reply_def empty_world_def toString_def digit_char_def)

text \<open>
  C5. For the Azure variant with an endpoint \<open>e\<close>, the constructor trims \<open>e\<close>, strips
  one trailing slash from the result, and then asks for the https scheme in any case. An
  endpoint that fails the test makes the constructor throw the invalid-endpoint error, and
  one that passes is stored in its normalized form. Trimming removes white space at both
  ends and nothing else.
\<close>

theorem constructor_azure_endpoint:
  assumes "truthy (azureApiKey opts)" and "azureEndpoint opts = Val e"
  shows "constructor opts =
           (if is_https_any_case (strip_one_slash (trim e))
            then Inr \<lparr>clientType = AzureOpenAI,
                      options = opts\<lparr>retryPolicy := assign_default [2000, 5000] (retryPolicy opts),
                        azureApiVersion := assign_default ''2023-05-15'' (azureApiVersion opts),
                        azureEndpoint := Val (strip_one_slash (trim e))\<rparr>\<rparr>
            else Inl (ThrownError (invalid_endpoint_message (strip_one_slash (trim e)))))
       \<and> (\<exists>l r. e = l @ trim e @ r \<and> list_all isWhiteSpace l \<and> list_all isWhiteSpace r)
       \<and> (trim e = [] \<or> (\<not> isWhiteSpace (hd (trim e)) \<and> \<not> isWhiteSpace (last (trim e))))"
proof -
  have "constructor opts =
           (if is_https_any_case (strip_one_slash (trim e))
            then Inr \<lparr>clientType = AzureOpenAI,
                      options = opts\<lparr>retryPolicy := assign_default [2000, 5000] (retryPolicy opts),
                        azureApiVersion := assign_default ''2023-05-15'' (azureApiVersion opts),
                        azureEndpoint := Val (strip_one_slash (trim e))\<rparr>\<rparr>
            else Inl (ThrownError (invalid_endpoint_message (strip_one_slash (trim e)))))"
    using assms
    by (simp add: constructor_def Let_def normalize_endpoint startsWith_https)
  then show ?thesis
    using trim_decompose[of e] trim_ends[of e] by blast
qed

theorem constructor_azure_endpoint_witness:
  "truthy (azureApiKey azure_options)
   \<and> azureEndpoint azure_options = Val ''  https://x.openai.azure.com/ ''
   \<and> constructor azure_options = Inr azure_client
   \<and> azureEndpoint (options azure_client) = Val ''https://x.openai.azure.com''
   \<and> constructor (azure_options\<lparr>azureEndpoint := Val ''HTTPS://X/''\<rparr>)
        = Inr (azure_client\<lparr>options := (options azure_client)\<lparr>azureEndpoint := Val ''HTTPS://X''\<rparr>\<rparr>)
   \<and> constructor (azure_options\<lparr>azureEndpoint := Val ''http://x''\<rparr>)
        = Inl (ThrownError (invalid_endpoint_message ''http://x''))"
  using constructor_azure_endpoint [of azure_options "''  https://x.openai.azure.com/ ''"]
    constructor_azure_endpoint [of "azure_options\<lparr>azureEndpoint := Val ''HTTPS://X/''\<rparr>" "''HTTPS://X/''"]
    constructor_azure_endpoint [of "azure_options\<lparr>azureEndpoint := Val ''http://x''\<rparr>" "''http://x''"]
  by (simp add: azure_options_def azure_client_def no_options_def trim_def isWhiteSpace_def
        strip_one_slash_def is_https_any_case_def)

text \<open>
  C6, evaluated on the code. The request builder never reads the client type: a call gives
  the same result and the same effects whatever the type. A client built from Azure
  options sends its request to the OpenAI URL with no model in the body, and so does a
  client built from OSS options; the Azure endpoint and deployment and the OSS endpoint
  and model, all held in the options, are not used.
\<close>

theorem createEmbeddingRequest_ignores_clientType:
  "createEmbeddings (c\<lparr>clientType := t\<rparr>) ins w rs = createEmbeddings c ins w rs
   \<and> constructor azure_options = Inr azure_client
   \<and> clientType azure_client = AzureOpenAI
   \<and> azureEndpoint (options azure_client) = Val ''https://x.openai.azure.com''
   \<and> azureDeployment (options azure_client) = Val ''dep''
   \<and> sent_urls (wire (snd (createEmbeddings azure_client (Single ''hello'') empty_world [ok_reply []])))
       = [''https://api.openai.com/v1/embeddings'']
   \<and> map request_model (sent_bodies (wire (snd (createEmbeddings azure_client (Single ''hello'')
         empty_world [ok_reply []])))) = [Absent]
   \<and> constructor oss_options = Inr oss_client
   \<and> ossEndpoint (options oss_client) = Val ''https://oss.example''
   \<and> ossModel (options oss_client) = Val ''all-MiniLM-L6-v2''
   \<and> sent_urls (wire (snd (createEmbeddings oss_client (Single ''hello'') empty_world [ok_reply []])))
       = [''https://api.openai.com/v1/embeddings'']
   \<and> map request_model (sent_bodies (wire (snd (createEmbeddings oss_client (Single ''hello'')
         empty_world [ok_reply []])))) = [Absent]"
proof -
  have g: "createEmbeddings (c\<lparr>clientType := t\<rparr>) ins w rs = createEmbeddings c ins w rs"
    by (simp add: createEmbeddings_def createEmbeddingRequest_def post_clientType)
  have a: "wire (snd (createEmbeddings azure_client (Single ''hello'') empty_world [ok_reply []]))
         = [Sent ''https://api.openai.com/v1/embeddings'' \<lparr>input = Single ''hello'', request_model = Absent\<rparr>
              (fst (init_request azure_client (heap empty_world)))]"
    by (simp add: createEmbeddings_def createEmbeddingRequest_def split_beta ok_reply_def
          settle_def validateStatus_def azure_client_def azure_options_def no_options_def
          empty_world_def)
  have b: "wire (snd (createEmbeddings oss_client (Single ''hello'') empty_world [ok_reply []]))
         = [Sent ''https://api.openai.com/v1/embeddings'' \<lparr>input = Single ''hello'', request_model = Absent\<rparr>
              (fst (init_request oss_client (heap empty_world)))]"
    by (simp add: createEmbeddings_def createEmbeddingRequest_def split_beta ok_reply_def
          settle_def validateStatus_def oss_client_def oss_options_def no_options_def
          empty_world_def)
  have c: "azureEndpoint (options azure_client) = Val ''https://x.openai.azure.com''"
      "azureDeployment (options azure_client) = Val ''dep''" "clientType azure_client = AzureOpenAI"
    by (simp_all add: azure_client_def azure_options_def no_options_def)
  have d: "ossEndpoint (options oss_client) = Val ''https://oss.example''"
      "ossModel (options oss_client) = Val ''all-MiniLM-L6-v2''"
    by (simp_all add: oss_client_def oss_options_def no_options_def)
  show ?thesis
    unfolding a b by (simp add: g c d constructor_azure_options constructor_oss_options)
qed

text \<open>
  C7, evaluated on the code. A client built from Azure options sends the headers
  Content-Type, User-Agent and Authorization, the last with the value made from the
  missing \<open>apiKey\<close>; it sends no \<open>api-key\<close> header, and the Azure key held in the
  options is not sent.
\<close>

theorem post_headers_ignore_clientType:
  "constructor azure_options = Inr azure_client
   \<and> clientType azure_client = AzureOpenAI
   \<and> azureApiKey (options azure_client) = Val ''azure-key''
   \<and> map dom (sent_headers (wire (snd (createEmbeddings azure_client (Single ''hello'') empty_world
         [ok_reply []])))) = [{''Content-Type'', ''User-Agent'', ''Authorization''}]
   \<and> map (\<lambda>h. h ''Authorization'') (sent_headers (wire (snd (createEmbeddings azure_client
         (Single ''hello'') empty_world [ok_reply []])))) = [Some ''Bearer undefined'']
   \<and> map (\<lambda>h. h ''api-key'') (sent_headers (wire (snd (createEmbeddings azure_client
         (Single ''hello'') empty_world [ok_reply []])))) = [None]"
proof -
  have a: "wire (snd (createEmbeddings azure_client (Single ''hello'') empty_world [ok_reply []]))
         = [Sent ''https://api.openai.com/v1/embeddings'' \<lparr>input = Single ''hello'', request_model = Absent\<rparr>
              (init_headers azure_client Map.empty)]"
    by (simp add: createEmbeddings_def createEmbeddingRequest_def split_beta ok_reply_def
          settle_def validateStatus_def azure_client_def azure_options_def no_options_def
          empty_world_def init_request_def headers_ref_def)
  have h: "init_headers azure_client Map.empty
         = [''Content-Type'' \<mapsto> ''application/json'', ''User-Agent'' \<mapsto> ''AlphaWave'',
            ''Authorization'' \<mapsto> ''Bearer undefined'']"
    by (simp add: init_headers_def falsy_header_def UserAgent_def azure_client_def
          azure_options_def no_options_def)
  have c: "azureApiKey (options azure_client) = Val ''azure-key''" "clientType azure_client = AzureOpenAI"
    by (simp_all add: azure_client_def azure_options_def no_options_def)
  show ?thesis
    unfolding a h by (auto simp: c constructor_azure_options)
qed

text \<open>
  C8, as the code has it. Two inputs and a successful response with one item give a
  success result with one vector.
\<close>

theorem createEmbeddings_short_response_succeeds:
  "fst (createEmbeddings openai_client (Batch [''a'', ''b'']) empty_world
          [ok_reply [\<lparr>index = 0, embedding = [1, 0]\<rparr>]]) = Inr (Success [ [1, 0] ])"
  by (simp add: createEmbeddings_def createEmbeddingRequest_def ok_reply_def settle_def
        validateStatus_def split_beta)

text \<open>
  C8, amended. For a final response with a status below 300, \<open>createEmbeddings\<close>
  returns the success result with one vector for each item of the response, whatever the
  number of inputs; the number of items is not compared with the number of inputs.
\<close>

theorem createEmbeddings_item_count:
  assumes "\<forall>p\<in>set pre. status p = 429"
    and "length pre \<le> length (elements (retryPolicy (options c)))"
    and "status r < 300"
    and "data r = Some items"
  shows "\<exists>vs. fst (createEmbeddings c ins w (pre @ r # rs)) = Inr (Success vs)
            \<and> length vs = length items"
proof -
  have ne: "status r \<noteq> 429" using assms(3) by simp
  have st: "settle r = Inr r" using assms(3) by (simp add: settle_def validateStatus_def)
  show ?thesis
    by (simp add: createEmbeddings_def createEmbeddings_final[OF assms(1,2) ne] st assms(3,4))
qed

theorem createEmbeddings_item_count_witness:
  "map status ([] :: http_response list) = []
   \<and> length ([] :: http_response list) \<le> length (elements (retryPolicy (options openai_client)))
   \<and> status (ok_reply [\<lparr>index = 0, embedding = [1, 0]\<rparr>]) < 300
   \<and> data (ok_reply [\<lparr>index = 0, embedding = [1, 0]\<rparr>]) = Some [\<lparr>index = 0, embedding = [1, 0]\<rparr>]
   \<and> (\<exists>vs. fst (createEmbeddings openai_client (Batch [''a'', ''b'', ''c'']) empty_world
                   [ok_reply [\<lparr>index = 0, embedding = [1, 0]\<rparr>]]) = Inr (Success vs)
           \<and> length vs = length [\<lparr>index = 0, embedding = [1, 0]\<rparr>])"
  using createEmbeddings_item_count [of "[]" openai_client
      "ok_reply [\<lparr>index = 0, embedding = [1, 0]\<rparr>]" "[\<lparr>index = 0, embedding = [1, 0]\<rparr>]"
      "Batch [''a'', ''b'', ''c'']" empty_world "[]"]
  by (simp add: ok_reply_def)

text \<open>
  C9. The value that \<open>createEmbeddings\<close> returns or the error it throws does not depend
  on the world in which the call starts. A second call on the same client, started in the
  world that the first call left and given the same script, returns the same value and
  puts the same requests and delays on the wire; this holds also when responses of the
  replayed script hold their items sorted in place by the first call.
\<close>

theorem createEmbeddings_deterministic:
  assumes "list_all2 same_or_sorted rs rs'"
  shows "fst (createEmbeddings c ins w rs) = fst (createEmbeddings c ins w' rs)
       \<and> fst (createEmbeddings c ins (snd (createEmbeddings c ins w rs)) rs')
           = fst (createEmbeddings c ins w rs)
       \<and> new_events (snd (createEmbeddings c ins w rs))
            (snd (createEmbeddings c ins (snd (createEmbeddings c ins w rs)) rs'))
           = new_events w (snd (createEmbeddings c ins w rs))"
proof -
  let ?w1 = "snd (createEmbeddings c ins w rs)"
  have a: "fst (createEmbeddings c ins w rs) = fst (createEmbeddings c ins w' rs)"
    by (simp only: fst_createEmbeddings)
  have rel: "rel_sum (=) same_or_sorted (final_response c 0 rs) (final_response c 0 rs')"
    using assms by (rule final_response_same_or_sorted)
  have b: "fst (createEmbeddings c ins ?w1 rs') = fst (createEmbeddings c ins w rs)"
    unfolding fst_createEmbeddings using rel
    by (cases "final_response c 0 rs"; cases "final_response c 0 rs'")
       (auto simp: same_or_sorted_def sorted_in_place_def sort_key_idem split: option.splits)
  have "fst (init_request c (heap w)) = fst (init_request c (heap ?w1))"
    by (simp add: heap_createEmbeddings init_request_idem)
  from post_wire_same[OF assms this] obtain tr where
    "wire ?w1 = wire w @ tr" "wire (snd (createEmbeddings c ins ?w1 rs')) = wire ?w1 @ tr"
    unfolding wire_createEmbeddings by blast
  then have c: "new_events ?w1 (snd (createEmbeddings c ins ?w1 rs')) = new_events w ?w1"
    by (simp add: new_events_def)
  show ?thesis using a b c by blast
qed

theorem createEmbeddings_deterministic_witness:
  "list_all2 same_or_sorted
      [reply 429 ''Too Many Requests'', ok_reply example_items]
      [reply 429 ''Too Many Requests'', sorted_in_place (ok_reply example_items)]
   \<and> fst (createEmbeddings openai_client (Batch [''a'', ''b'']) empty_world
            [reply 429 ''Too Many Requests'', ok_reply example_items])
       = Inr (Success [ [1, 0], [0, 1] ])
   \<and> fst (createEmbeddings openai_client (Batch [''a'', ''b''])
            (snd (createEmbeddings openai_client (Batch [''a'', ''b'']) empty_world
                    [reply 429 ''Too Many Requests'', ok_reply example_items]))
            [reply 429 ''Too Many Requests'', sorted_in_place (ok_reply example_items)])
       = Inr (Success [ [1, 0], [0, 1] ])"
proof -
  have rel: "list_all2 same_or_sorted
      [reply 429 ''Too Many Requests'', ok_reply example_items]
      [reply 429 ''Too Many Requests'', sorted_in_place (ok_reply example_items)]"
    by (simp add: same_or_sorted_def)
  have first: "fst (createEmbeddings openai_client (Batch [''a'', ''b'']) empty_world
            [reply 429 ''Too Many Requests'', ok_reply example_items])
       = Inr (Success [ [1, 0], [0, 1] ])"
    by (simp add: fst_createEmbeddings settle_def validateStatus_def reply_def ok_reply_def
          openai_client_def example_items_def)
  show ?thesis
    using createEmbeddings_deterministic [OF rel, of openai_client "Batch [''a'', ''b'']" empty_world empty_world]
      rel first
    by simp
qed

text \<open>
  C10. When the options hold a request configuration whose headers object is at address
  \<open>a\<close>, a call of \<open>createEmbeddings\<close>, whatever its outcome, leaves a store that
  differs from the one before only at \<open>a\<close>. The object there has Content-Type and
  User-Agent set to the defaults where they were missing or empty, Authorization set to
  the bearer value in every case, OpenAI-Organization set when an organization is
  configured, and every other header as before. The options are a value that the call
  reads; the store is all that it writes.
\<close>

theorem createEmbeddings_mutates_shared_headers:
  assumes "requestConfig (options c) = Val rc" and "headers rc = Some a"
  shows "heap (snd (createEmbeddings c ins w rs)) = (heap w)(a := init_headers c (heap w a))
       \<and> init_headers c (heap w a) ''Content-Type''
           = (if falsy_header (heap w a ''Content-Type'') then Some ''application/json''
              else heap w a ''Content-Type'')
       \<and> init_headers c (heap w a) ''User-Agent''
           = (if falsy_header (heap w a ''User-Agent'') then Some ''AlphaWave''
              else heap w a ''User-Agent'')
       \<and> init_headers c (heap w a) ''Authorization''
           = Some (''Bearer '' @ template (apiKey (options c)))
       \<and> init_headers c (heap w a) ''OpenAI-Organization''
           = (if truthy (organization (options c)) then Some (template (organization (options c)))
              else heap w a ''OpenAI-Organization'')
       \<and> init_headers c (heap w a)
             |` (- {''Content-Type'', ''User-Agent'', ''Authorization'', ''OpenAI-Organization''})
           = heap w a
             |` (- {''Content-Type'', ''User-Agent'', ''Authorization'', ''OpenAI-Organization''})"
proof -
  have ref: "headers_ref c = Some a"
    using assms by (simp add: headers_ref_def)
  have h: "heap (snd (createEmbeddings c ins w rs)) = (heap w)(a := init_headers c (heap w a))"
    by (simp add: heap_createEmbeddings init_request_def ref)
  have r: "init_headers c (heap w a)
             |` (- {''Content-Type'', ''User-Agent'', ''Authorization'', ''OpenAI-Organization''})
           = heap w a
             |` (- {''Content-Type'', ''User-Agent'', ''Authorization'', ''OpenAI-Organization''})"
    by (rule ext) (simp add: init_headers_def Let_def restrict_map_def)
  show ?thesis
    unfolding h using r by (simp add: init_headers_def Let_def UserAgent_def)
qed

theorem createEmbeddings_mutates_shared_headers_witness:
  "requestConfig (options shared_headers_client) = Val \<lparr>headers = Some 7, timeout = None\<rparr>
   \<and> headers \<lparr>headers = Some 7, timeout = None\<rparr> = Some 7
   \<and> heap caller_world 7 = [''X-Trace'' \<mapsto> ''on'']
   \<and> heap (snd (createEmbeddings shared_headers_client (Single ''a'') caller_world
                  [reply 500 ''Internal Server Error''])) 7
       = [''X-Trace'' \<mapsto> ''on'', ''Content-Type'' \<mapsto> ''application/json'',
          ''User-Agent'' \<mapsto> ''AlphaWave'', ''Authorization'' \<mapsto> ''Bearer sk-key'']
   \<and> heap (snd (createEmbeddings shared_headers_client (Single ''a'') caller_world
                  [reply 500 ''Internal Server Error''])) 8
       = heap caller_world 8"
  using createEmbeddings_mutates_shared_headers [of shared_headers_client
          "\<lparr>headers = Some 7, timeout = None\<rparr>" 7 "Single ''a''" caller_world
          "[reply 500 ''Internal Server Error'']"]
  by (simp add: shared_headers_client_def openai_client_def openai_options_def no_options_def
        caller_world_def init_headers_def falsy_header_def UserAgent_def)

end
